theory Spec2Isabelle
  imports Complex_Main
begin

section \<open>Energy mix scenarios: the data of \<open>plot.py\<close>\<close>

text \<open>
  The program reads an hourly table \<open>df_cf\<close> (a pandas DataFrame indexed by timestamp, with
  one capacity-factor column per technology and a \<open>Load\<close> column) and, for each nuclear
  fraction, sizes the installed capacities, builds the hourly generation profile and derives
  the backup requirement.

  Numbers are Python floats in the source. They are modelled as \<open>real\<close>: rounding is not
  modelled. The one non-number that the computation can produce from a table of numbers is the
  NaN that pandas returns for the maximum or minimum of an empty Series; such values have type
  \<open>real option\<close> with \<open>None\<close> for NaN.

  A DataFrame is a list of rows in index order. All Series of one scenario share the index of
  the sliced table, so elementwise pandas operations are positionwise operations on these lists.
  Timestamps are whole hours since an epoch, calendar dates whole days since that epoch.
\<close>

datatype tech = Nuclear | Wind_offshore | Wind_onshore | Solar


record cf_row =
  stamp :: int
  cf :: "tech \<Rightarrow> real"
  Load :: real

record profile_row =
  hour :: int
  gen :: "tech \<Rightarrow> real"
  Storage_potential :: real
  Storage_consumption_requirement :: real




subsection \<open>Python and pandas primitives\<close>

text \<open>
  \<open>Series.max()\<close> and \<open>Series.min()\<close>: NaN on an empty Series.
\<close>

definition series_max :: "real list \<Rightarrow> real option" where
  "series_max xs = (case xs of [] \<Rightarrow> None | x # ys \<Rightarrow> Some (fold max ys x))"


text \<open>\<open>Series.clip(lower=l)\<close> and \<open>Series.clip(upper=u)\<close>, elementwise.\<close>

definition clip_lower :: "real \<Rightarrow> real list \<Rightarrow> real list" where
  "clip_lower l xs = map (\<lambda>x. if x < l then l else x) xs"

definition clip_upper :: "real \<Rightarrow> real list \<Rightarrow> real list" where
  "clip_upper u xs = map (\<lambda>x. if x > u then u else x) xs"

text \<open>
  Comparison of floats that may be NaN is false as soon as one side is NaN. The builtins
  \<open>max(a, b)\<close> and \<open>min(a, b)\<close> keep the first argument unless the second one is strictly
  beyond it; over a list they fold from the first element and raise \<open>ValueError\<close> on an
  empty list.
\<close>

definition nan_less :: "real option \<Rightarrow> real option \<Rightarrow> bool" where
  "nan_less a b = (case (a, b) of (Some x, Some y) \<Rightarrow> x < y | _ \<Rightarrow> False)"

definition py_max :: "real option \<Rightarrow> real option \<Rightarrow> real option" where
  "py_max a b = (if nan_less a b then b else a)"





subsection \<open>Slicing the table\<close>



subsection \<open>One scenario: the body of the first loop of \<open>create_interactive_energy_plot\<close>\<close>

text \<open>
  Each definition is one local variable of the loop body, as a function of the weights, the
  nuclear fraction and the sliced table \<open>df_cf_period\<close>.
\<close>

definition column_sum :: "tech \<Rightarrow> cf_row list \<Rightarrow> real" where
  "column_sum t df_cf_period = sum_list (map (\<lambda>r. cf r t) df_cf_period)"

definition total_load_energy :: "cf_row list \<Rightarrow> real" where
  "total_load_energy df_cf_period = sum_list (map Load df_cf_period)"

definition nuclear_cf_sum :: "cf_row list \<Rightarrow> real" where
  "nuclear_cf_sum df_cf_period = column_sum Nuclear df_cf_period"

definition nuclear_installed :: "real \<Rightarrow> cf_row list \<Rightarrow> real" where
  "nuclear_installed nf df_cf_period =
     (let nuclear_generation_needed = nf * total_load_energy df_cf_period
      in if nuclear_cf_sum df_cf_period > 0
         then nuclear_generation_needed / nuclear_cf_sum df_cf_period else 0)"

definition renewable_cf_weighted :: "(tech \<Rightarrow> real) \<Rightarrow> cf_row list \<Rightarrow> real" where
  "renewable_cf_weighted caps df_cf_period =
     caps Solar * column_sum Solar df_cf_period
     + caps Wind_onshore * column_sum Wind_onshore df_cf_period
     + caps Wind_offshore * column_sum Wind_offshore df_cf_period"

definition renewable_C :: "(tech \<Rightarrow> real) \<Rightarrow> real \<Rightarrow> cf_row list \<Rightarrow> real" where
  "renewable_C caps nf df_cf_period =
     (let renewable_generation_needed = (1 - nf) * total_load_energy df_cf_period
      in if renewable_cf_weighted caps df_cf_period > 0
         then renewable_generation_needed / renewable_cf_weighted caps df_cf_period else 0)"

definition installed_capacity :: "(tech \<Rightarrow> real) \<Rightarrow> real \<Rightarrow> cf_row list \<Rightarrow> tech \<Rightarrow> real" where
  "installed_capacity caps nf df_cf_period t =
     (case t of
        Nuclear \<Rightarrow> nuclear_installed nf df_cf_period
      | Wind_offshore \<Rightarrow> caps Wind_offshore * renewable_C caps nf df_cf_period
      | Wind_onshore \<Rightarrow> caps Wind_onshore * renewable_C caps nf df_cf_period
      | Solar \<Rightarrow> caps Solar * renewable_C caps nf df_cf_period)"

text \<open>The four generation columns of \<open>df_\<close>, one function per hour.\<close>

definition generation :: "(tech \<Rightarrow> real) \<Rightarrow> real \<Rightarrow> cf_row list \<Rightarrow> (tech \<Rightarrow> real) list" where
  "generation caps nf df_cf_period =
     map (\<lambda>r t. case t of
            Nuclear \<Rightarrow> cf r Nuclear * nuclear_installed nf df_cf_period
          | Wind_offshore \<Rightarrow> cf r Wind_offshore * (caps Wind_offshore * renewable_C caps nf df_cf_period)
          | Wind_onshore \<Rightarrow> cf r Wind_onshore * (caps Wind_onshore * renewable_C caps nf df_cf_period)
          | Solar \<Rightarrow> cf r Solar * (caps Solar * renewable_C caps nf df_cf_period))
         df_cf_period"

text \<open>\<open>df_.sum(axis=1)\<close> while \<open>df_\<close> holds the four generation columns.\<close>

definition row_sum :: "(tech \<Rightarrow> real) \<Rightarrow> real" where
  "row_sum g = g Nuclear + g Wind_offshore + g Wind_onshore + g Solar"

definition bess :: "(tech \<Rightarrow> real) \<Rightarrow> real \<Rightarrow> cf_row list \<Rightarrow> real list" where
  "bess caps nf df_cf_period =
     map2 (\<lambda>s l. s - l) (map row_sum (generation caps nf df_cf_period)) (map Load df_cf_period)"

definition storage_potential :: "(tech \<Rightarrow> real) \<Rightarrow> real \<Rightarrow> cf_row list \<Rightarrow> real list" where
  "storage_potential caps nf df_cf_period = map uminus (clip_lower 0 (bess caps nf df_cf_period))"

definition storage_consumption_requirement :: "(tech \<Rightarrow> real) \<Rightarrow> real \<Rightarrow> cf_row list \<Rightarrow> real list" where
  "storage_consumption_requirement caps nf df_cf_period =
     map uminus (clip_upper 0 (bess caps nf df_cf_period))"

definition peak_surplus :: "(tech \<Rightarrow> real) \<Rightarrow> real \<Rightarrow> cf_row list \<Rightarrow> real option" where
  "peak_surplus caps nf df_cf_period = series_max (clip_lower 0 (bess caps nf df_cf_period))"

definition peak_deficit :: "(tech \<Rightarrow> real) \<Rightarrow> real \<Rightarrow> cf_row list \<Rightarrow> real option" where
  "peak_deficit caps nf df_cf_period =
     series_max (map uminus (clip_upper 0 (bess caps nf df_cf_period)))"

definition battery_capacity :: "(tech \<Rightarrow> real) \<Rightarrow> real \<Rightarrow> cf_row list \<Rightarrow> real option" where
  "battery_capacity caps nf df_cf_period =
     py_max (peak_surplus caps nf df_cf_period) (peak_deficit caps nf df_cf_period)"

text \<open>\<open>df_\<close> with its six columns, and the record appended to \<open>scenario_data\<close>.\<close>

definition df_profile :: "(tech \<Rightarrow> real) \<Rightarrow> real \<Rightarrow> cf_row list \<Rightarrow> profile_row list" where
  "df_profile caps nf df_cf_period =
     map (\<lambda>(r, g, sp, sc).
            \<lparr>hour = stamp r, gen = g, Storage_potential = sp,
             Storage_consumption_requirement = sc\<rparr>)
         (zip df_cf_period
           (zip (generation caps nf df_cf_period)
             (zip (storage_potential caps nf df_cf_period)
                  (storage_consumption_requirement caps nf df_cf_period))))"


subsection \<open>The global axis limits and the whole function\<close>




subsection \<open>The callback \<open>update_graph\<close>\<close>









subsection \<open>Scaling the capacity factors, and the worked example\<close>


text \<open>
  The four-hour example: load 100 in every hour, baseload capacity factor 1, the solar factors
  0, 0.5, 1, 0.5, and weight 1 on solar only. The two wind columns, which the code reads as
  well, are left open; their weight is 0.
\<close>

definition example_table :: "(int \<Rightarrow> real) \<Rightarrow> (int \<Rightarrow> real) \<Rightarrow> cf_row list" where
  "example_table won woff =
     map (\<lambda>(i, s).
            \<lparr>stamp = i,
             cf = (\<lambda>t. case t of Nuclear \<Rightarrow> 1 | Solar \<Rightarrow> s
                              | Wind_onshore \<Rightarrow> won i | Wind_offshore \<Rightarrow> woff i),
             Load = 100\<rparr>)
         [(0, 0), (1, 1 / 2), (2, 1), (3, 1 / 2)]"

definition example_weights :: "tech \<Rightarrow> real" where
  "example_weights t = (if t = Solar then 1 else 0)"

definition no_wind :: "int \<Rightarrow> real" where
  "no_wind i = 0"


definition renewables :: "tech set" where
  "renewables = {Wind_offshore, Wind_onshore, Solar}"

section \<open>Auxiliary facts\<close>

subsection \<open>Technologies, sums and lists\<close>

lemma UNIV_tech: "(UNIV :: tech set) = {Nuclear, Wind_offshore, Wind_onshore, Solar}"
  by (auto intro: tech.exhaust)

lemma sum_tech: "(\<Sum>t\<in>UNIV. f (t::tech)) = f Nuclear + f Wind_offshore + f Wind_onshore + f Solar"
  by (simp add: UNIV_tech add.assoc)

lemma sum_renewables: "(\<Sum>t\<in>renewables. f t) = f Wind_offshore + f Wind_onshore + f Solar"
  by (simp add: renewables_def add.assoc)

lemma renewable_cases: "t \<in> renewables \<longleftrightarrow> t = Wind_offshore \<or> t = Wind_onshore \<or> t = Solar"
  by (simp add: renewables_def)

lemma map2_maps: "map2 h (map f xs) (map g xs) = map (\<lambda>x. h (f x) (g x)) xs"
  by (induction xs) auto

lemma zip_maps: "zip (map f xs) (map g xs) = map (\<lambda>x. (f x, g x)) xs"
  by (induction xs) auto

lemma zip_self_map: "zip xs (map g xs) = map (\<lambda>x. (x, g x)) xs"
  by (induction xs) auto


lemma fold_max_Max: "fold max ys (x::real) = Max (set (x # ys))"
  by (simp only: Max.set_eq_fold)

lemma series_max_Max: "xs \<noteq> [] \<Longrightarrow> series_max xs = Some (Max (set xs))"
  by (cases xs) (simp_all add: series_max_def fold_max_Max del: set_simps)

lemma py_max_Some: "py_max (Some x) (Some y) = Some (max x y)"
  by (simp add: py_max_def nan_less_def max_def)

lemma clip_lower_max: "clip_lower 0 xs = map (\<lambda>b. max b 0) xs"
  by (auto simp: clip_lower_def max_def)

lemma neg_clip_upper_max: "map uminus (clip_upper 0 xs) = map (\<lambda>b. max (- b) 0) xs"
  by (auto simp: clip_upper_def max_def)

subsection \<open>The scenario as maps over the sliced table\<close>

lemma column_sum_nonneg: "\<forall>r\<in>set p. 0 \<le> cf r t \<Longrightarrow> 0 \<le> column_sum t p"
  unfolding column_sum_def by (induction p) auto

lemma renewable_cf_weighted_sum:
  "renewable_cf_weighted caps p = (\<Sum>t\<in>renewables. caps t * column_sum t p)"
  by (simp add: renewable_cf_weighted_def sum_renewables)

lemma renewable_cf_weighted_nonneg:
  assumes "\<forall>r\<in>set p. \<forall>t\<in>renewables. 0 \<le> cf r t" "\<forall>t\<in>renewables. 0 \<le> caps t"
  shows "0 \<le> renewable_cf_weighted caps p"
proof -
  have "0 \<le> caps t * column_sum t p" if "t \<in> renewables" for t
    using that assms by (intro mult_nonneg_nonneg column_sum_nonneg) auto
  then show ?thesis unfolding renewable_cf_weighted_sum by (intro sum_nonneg) auto
qed

lemma installed_renewable:
  "t \<in> renewables \<Longrightarrow> installed_capacity caps nf p t = caps t * renewable_C caps nf p"
  by (auto simp: installed_capacity_def renewables_def)

lemma generation_installed:
  "generation caps nf p = map (\<lambda>r t. cf r t * installed_capacity caps nf p t) p"
  by (auto simp: generation_def fun_eq_iff installed_capacity_def split: tech.split)

lemma bess_rows:
  "bess caps nf p = map (\<lambda>r. row_sum (\<lambda>t. cf r t * installed_capacity caps nf p t) - Load r) p"
  by (simp add: bess_def generation_installed map2_maps o_def)

lemma length_bess: "length (bess caps nf p) = length p"
  by (simp add: bess_rows)

lemma row_sum_generation:
  "map row_sum (generation caps nf p) =
     map (\<lambda>r. cf r Nuclear * installed_capacity caps nf p Nuclear
              + cf r Wind_offshore * installed_capacity caps nf p Wind_offshore
              + cf r Wind_onshore * installed_capacity caps nf p Wind_onshore
              + cf r Solar * installed_capacity caps nf p Solar) p"
  by (simp add: generation_installed row_sum_def)

lemma df_profile_rows:
  "df_profile caps nf p =
     map (\<lambda>r. \<lparr>hour = stamp r,
               gen = (\<lambda>t. cf r t * installed_capacity caps nf p t),
               Storage_potential =
                 - max (row_sum (\<lambda>t. cf r t * installed_capacity caps nf p t) - Load r) 0,
               Storage_consumption_requirement =
                 - min (row_sum (\<lambda>t. cf r t * installed_capacity caps nf p t) - Load r) 0\<rparr>) p"
proof -
  have sp: "storage_potential caps nf p =
     map (\<lambda>r. - max (row_sum (\<lambda>t. cf r t * installed_capacity caps nf p t) - Load r) 0) p"
    by (auto simp: storage_potential_def clip_lower_def bess_rows max_def)
  have sc: "storage_consumption_requirement caps nf p =
     map (\<lambda>r. - min (row_sum (\<lambda>t. cf r t * installed_capacity caps nf p t) - Load r) 0) p"
    by (auto simp: storage_consumption_requirement_def clip_upper_def bess_rows min_def)
  show ?thesis
    unfolding df_profile_def sp sc generation_installed
    by (simp add: zip_maps zip_self_map)
qed

lemma length_df_profile: "length (df_profile caps nf p) = length p"
  by (simp add: df_profile_rows)



subsection \<open>Scaling\<close>








subsection \<open>The worked example, evaluated\<close>

lemma example_total_load: "total_load_energy (example_table a b) = 400"
  by (simp add: total_load_energy_def example_table_def)

lemma example_column_sum_Nuclear: "column_sum Nuclear (example_table a b) = 4"
  by (simp add: column_sum_def example_table_def)

lemma example_column_sum_Solar: "column_sum Solar (example_table a b) = 2"
  by (simp add: column_sum_def example_table_def)

lemma example_cf_weighted: "renewable_cf_weighted example_weights (example_table a b) = 2"
  by (simp add: renewable_cf_weighted_def example_weights_def example_column_sum_Solar)

lemma example_nuclear_installed: "nuclear_installed nf (example_table a b) = 100 * nf"
  by (simp add: nuclear_installed_def nuclear_cf_sum_def example_total_load example_column_sum_Nuclear)

lemma example_renewable_C: "renewable_C example_weights nf (example_table a b) = 200 * (1 - nf)"
  by (simp add: renewable_C_def example_total_load example_cf_weighted)

lemma example_installed:
  "installed_capacity example_weights nf (example_table a b) Nuclear = 100 * nf"
  "installed_capacity example_weights nf (example_table a b) Solar = 200 * (1 - nf)"
  "installed_capacity example_weights nf (example_table a b) Wind_onshore = 0"
  "installed_capacity example_weights nf (example_table a b) Wind_offshore = 0"
  by (simp_all add: installed_capacity_def example_nuclear_installed example_renewable_C
        example_weights_def)

lemma example_row_sums:
  "map row_sum (generation example_weights nf (example_table a b)) =
     [100 * nf, 100, 200 - 100 * nf, 100]"
  unfolding row_sum_generation example_installed
  by (simp add: example_table_def algebra_simps)

lemma example_bess:
  "bess example_weights nf (example_table a b) = [100 * nf - 100, 0, 100 - 100 * nf, 0]"
  by (simp add: bess_def example_row_sums) (simp add: example_table_def)

lemma example_battery_half:
  "battery_capacity example_weights (1 / 2) (example_table a b) = Some 50"
  by (simp add: battery_capacity_def peak_surplus_def peak_deficit_def example_bess
        clip_lower_def clip_upper_def series_max_def py_max_def nan_less_def)

lemma example_length: "length (example_table a b) = 4"
  by (simp add: example_table_def)


lemma example_nonempty: "example_table a b \<noteq> []"
  by (simp add: example_table_def)

lemma example_cf_nonneg: "\<forall>r\<in>set (example_table no_wind no_wind). \<forall>t. 0 \<le> cf r t"
  by (simp add: example_table_def no_wind_def split: tech.split)

subsection \<open>The whole function and the empty window\<close>













subsection \<open>The module dates and the clipped window\<close>









section \<open>The claims\<close>

text \<open>
  C1. Installed capacities. On a sliced table whose capacity factors are not negative, with
  weights that are not negative (the invariants of the capacity-factor table and of the
  technology mix), the baseload capacity is the nuclear fraction times the total load energy
  divided by the sum of the baseload capacity factor over the slice, and zero when that sum is
  zero; every renewable technology \<open>t\<close> gets its weight times \<open>C\<close>, where \<open>C\<close> is the
  remaining share of the total load energy divided by the weighted sum of the renewable
  capacity-factor sums, and zero when that weighted sum is zero. The code tests both sums with
  \<open>> 0\<close>; under the invariants this is the test against zero. The statement holds for an
  empty slice as well.
\<close>

theorem installed_capacities_formula:
  assumes "\<forall>r\<in>set p. \<forall>t. 0 \<le> cf r t" and "\<forall>t\<in>renewables. 0 \<le> caps t"
  shows "installed_capacity caps nf p Nuclear =
           (if column_sum Nuclear p = 0 then 0
            else nf * total_load_energy p / column_sum Nuclear p)
       \<and> (\<forall>t\<in>renewables. installed_capacity caps nf p t =
            caps t * (if (\<Sum>u\<in>renewables. caps u * column_sum u p) = 0 then 0
                      else (1 - nf) * total_load_energy p
                           / (\<Sum>u\<in>renewables. caps u * column_sum u p)))"
proof -
  have n: "0 \<le> column_sum Nuclear p"
    using assms(1) by (intro column_sum_nonneg) auto
  have w: "0 \<le> renewable_cf_weighted caps p"
    using assms by (intro renewable_cf_weighted_nonneg) auto
  have base: "installed_capacity caps nf p Nuclear =
           (if column_sum Nuclear p = 0 then 0
            else nf * total_load_energy p / column_sum Nuclear p)"
    using n by (simp add: installed_capacity_def nuclear_installed_def nuclear_cf_sum_def)
  have total: "renewable_C caps nf p =
           (if renewable_cf_weighted caps p = 0 then 0
            else (1 - nf) * total_load_energy p / renewable_cf_weighted caps p)"
    using w by (simp add: renewable_C_def)
  show ?thesis
    using base total by (simp add: renewable_cf_weighted_sum installed_renewable)
qed

theorem installed_capacities_formula_witness:
  "installed_capacity example_weights (1 / 2) (example_table no_wind no_wind) Nuclear = 50
   \<and> installed_capacity example_weights (1 / 2) (example_table no_wind no_wind) Solar = 100"
proof -
  have weights: "\<forall>t\<in>renewables. 0 \<le> example_weights t"
    by (simp add: example_weights_def)
  have solar: "Solar \<in> renewables"
    by (simp add: renewables_def)
  have one: "example_weights Solar = 1"
    by (simp add: example_weights_def)
  have sums: "(\<Sum>u\<in>renewables. example_weights u * column_sum u (example_table no_wind no_wind)) = 2"
    by (simp add: example_cf_weighted flip: renewable_cf_weighted_sum)
  note formula = installed_capacities_formula [OF example_cf_nonneg weights, of "1 / 2"]
  from formula have base:
    "installed_capacity example_weights (1 / 2) (example_table no_wind no_wind) Nuclear = 50"
    by (simp add: example_total_load example_column_sum_Nuclear)
  from formula solar have
    "installed_capacity example_weights (1 / 2) (example_table no_wind no_wind) Solar =
       example_weights Solar *
         (if (\<Sum>u\<in>renewables. example_weights u * column_sum u (example_table no_wind no_wind)) = 0
          then 0
          else (1 - 1 / 2) * total_load_energy (example_table no_wind no_wind)
               / (\<Sum>u\<in>renewables. example_weights u * column_sum u (example_table no_wind no_wind)))"
    by blast
  then have
    "installed_capacity example_weights (1 / 2) (example_table no_wind no_wind) Solar = 100"
    by (simp add: sums example_total_load one)
  with base show ?thesis
    by simp
qed

text \<open>
  C2. Backup capacity. On a non-empty slice the peak surplus is the largest value of
  \<open>max(bess, 0)\<close>, the peak deficit the largest value of \<open>max(-bess, 0)\<close>, and the
  battery capacity is the larger of the two. It is a number (not NaN), it is not negative, and
  it is zero when the generation total equals the load in every hour of the slice.
\<close>

theorem battery_capacity_peak:
  assumes "p \<noteq> []"
  shows "peak_surplus caps nf p = Some (Max ((\<lambda>b. max b 0) ` set (bess caps nf p)))
       \<and> peak_deficit caps nf p = Some (Max ((\<lambda>b. max (- b) 0) ` set (bess caps nf p)))
       \<and> battery_capacity caps nf p =
            Some (max (Max ((\<lambda>b. max b 0) ` set (bess caps nf p)))
                      (Max ((\<lambda>b. max (- b) 0) ` set (bess caps nf p))))
       \<and> 0 \<le> the (battery_capacity caps nf p)
       \<and> (map row_sum (generation caps nf p) = map Load p
            \<longrightarrow> battery_capacity caps nf p = Some 0)"
proof -
  let ?b = "bess caps nf p"
  have ne: "?b \<noteq> []"
    using assms length_bess [of caps nf p] by auto
  have ps: "peak_surplus caps nf p = Some (Max ((\<lambda>b. max b 0) ` set ?b))"
    using ne by (simp add: peak_surplus_def series_max_Max clip_lower_max)
  have pd: "peak_deficit caps nf p = Some (Max ((\<lambda>b. max (- b) 0) ` set ?b))"
    using ne by (simp add: peak_deficit_def series_max_Max neg_clip_upper_max)
  have bc: "battery_capacity caps nf p =
            Some (max (Max ((\<lambda>b. max b 0) ` set ?b)) (Max ((\<lambda>b. max (- b) 0) ` set ?b)))"
    by (simp add: battery_capacity_def ps pd py_max_Some)
  obtain b0 where b0: "b0 \<in> set ?b"
    using ne by (cases ?b) auto
  have "max b0 0 \<le> Max ((\<lambda>b. max b 0) ` set ?b)"
    using b0 by (intro Max_ge) auto
  then have nonneg: "0 \<le> Max ((\<lambda>b. max b 0) ` set ?b)"
    by linarith
  have zero: "battery_capacity caps nf p = Some 0"
    if eq: "map row_sum (generation caps nf p) = map Load p"
  proof -
    have "?b = map (\<lambda>r. 0) p"
      unfolding bess_def eq by (simp add: map2_maps)
    then have "set ?b = {0}"
      using assms by (cases p) auto
    then show ?thesis
      by (simp add: bc)
  qed
  show ?thesis
    using ps pd bc nonneg zero by (simp add: le_max_iff_disj)
qed

theorem battery_capacity_peak_witness:
  "example_table no_wind no_wind \<noteq> []
   \<and> battery_capacity example_weights (1 / 2) (example_table no_wind no_wind) = Some 50
   \<and> map row_sum (generation example_weights 1 (example_table no_wind no_wind))
       = map Load (example_table no_wind no_wind)
   \<and> battery_capacity example_weights 1 (example_table no_wind no_wind) = Some 0"
proof -
  have tracks: "map row_sum (generation example_weights 1 (example_table no_wind no_wind))
       = map Load (example_table no_wind no_wind)"
    by (simp add: example_row_sums) (simp add: example_table_def)
  have half: "battery_capacity example_weights (1 / 2) (example_table no_wind no_wind) = Some 50"
    using battery_capacity_peak [OF example_nonempty, of example_weights "1 / 2" no_wind no_wind]
    by (simp add: example_bess)
  have full: "battery_capacity example_weights 1 (example_table no_wind no_wind) = Some 0"
    using battery_capacity_peak [OF example_nonempty, of example_weights 1 no_wind no_wind] tracks
    by blast
  show ?thesis
    using half full tracks example_nonempty by simp
qed

text \<open>
  C3. Net balance. In every hour of the slice, \<open>bess\<close> is the sum over all four technologies
  of capacity factor times installed capacity, minus the load of that hour. The two lists have
  one entry per row of the slice, in the order of the rows.
\<close>

theorem bess_is_generation_minus_load:
  "bess caps nf p =
     map (\<lambda>r. (\<Sum>t\<in>UNIV. cf r t * installed_capacity caps nf p t) - Load r) p"
  by (simp add: bess_rows row_sum_def sum_tech)

text \<open>
  C4. The worked example. With load 100 in four hours, solar factors 0, 0.5, 1, 0.5, baseload
  factor 1, weight 1 on solar alone and nuclear fraction 0.5, the baseload capacity is 50, the
  solar capacity 100, the hourly generation totals are 50, 100, 150, 100, the net balance is
  -50, 0, 50, 0 and the battery capacity is 50, whatever the two wind columns hold.
\<close>

theorem worked_example:
  "installed_capacity example_weights (1 / 2) (example_table won woff) Nuclear = 50
   \<and> installed_capacity example_weights (1 / 2) (example_table won woff) Solar = 100
   \<and> map row_sum (generation example_weights (1 / 2) (example_table won woff))
       = [50, 100, 150, 100]
   \<and> bess example_weights (1 / 2) (example_table won woff) = [- 50, 0, 50, 0]
   \<and> battery_capacity example_weights (1 / 2) (example_table won woff) = Some 50"
  by (simp add: example_installed example_row_sums example_bess example_battery_half)













text \<open>
  C10. The two storage series. In every hour of the slice the stored storage potential is
  never positive, the stored consumption requirement is never negative, the two add up to the
  negated \<open>bess\<close> of that hour, and at least one of them is zero.
\<close>

theorem storage_series:
  assumes "i < length p"
  shows "Storage_potential (df_profile caps nf p ! i) \<le> 0
       \<and> 0 \<le> Storage_consumption_requirement (df_profile caps nf p ! i)
       \<and> Storage_potential (df_profile caps nf p ! i)
           + Storage_consumption_requirement (df_profile caps nf p ! i) = - (bess caps nf p ! i)
       \<and> (Storage_potential (df_profile caps nf p ! i) = 0
            \<or> Storage_consumption_requirement (df_profile caps nf p ! i) = 0)"
  using assms by (simp add: df_profile_rows bess_rows max_def min_def)

theorem storage_series_witness:
  "(2::nat) < length (example_table no_wind no_wind)
   \<and> Storage_potential (df_profile example_weights (1 / 2) (example_table no_wind no_wind) ! 2)
       + Storage_consumption_requirement
           (df_profile example_weights (1 / 2) (example_table no_wind no_wind) ! 2) = - 50"
proof -
  have two: "(2::nat) < length (example_table no_wind no_wind)"
    by (simp add: example_length)
  show ?thesis
    using storage_series [OF two, of example_weights "1 / 2"] two
    by (simp add: example_bess)
qed

end
